theory Spec2Isabelle
  imports Main
begin

section \<open>The QR authentication plugin (src/plugin/server.ts)\<close>

text \<open>
  The server plugin exposes four endpoint handlers over one persisted model, \<open>qrToken\<close>:
  \<open>generateToken\<close>, \<open>verifyToken\<close>, \<open>pollStatus\<close> and \<open>claimSession\<close>. Each handler is
  embedded as a function from the store (and the request) to the new store and the
  response. What the handler takes from outside is an argument of the function: the
  values \<open>uuidv4()\<close> returns, the readings of the clock (\<open>new Date()\<close>,
  \<open>Date.now()\<close>), and the outcome of the host framework's \<open>createSession\<close> and
  \<open>setSessionCookie\<close>.
\<close>

subsection \<open>JavaScript values\<close>

text \<open>
  A \<open>Date\<close> is its time value, the milliseconds since the epoch. \<open>toISOString\<close> renders
  a time injectively, so a rendered date is modelled by the time itself.
\<close>

type_synonym time = int

text \<open>
  An optional property of a stored row or of a request body: absent (\<open>undefined\<close>),
  \<open>null\<close>, or a value.
\<close>

datatype 'a field = Undefined | Null | Val 'a

text \<open>Truthiness of an optional string (\<open>!x\<close> is its negation): the empty string is falsy.\<close>

fun truthy :: "string field \<Rightarrow> bool" where
  "truthy (Val s) = (s \<noteq> [])"
| "truthy Undefined = False"
| "truthy Null = False"

text \<open>Truthiness of an optional \<open>Date\<close>: every \<open>Date\<close> object is truthy.\<close>

fun truthyDate :: "time field \<Rightarrow> bool" where
  "truthyDate (Val t) = True"
| "truthyDate Undefined = False"
| "truthyDate Null = False"

text \<open>
  \<open>new Date(v)\<close>: \<open>new Date(undefined)\<close> is an invalid date (time value NaN, here
  \<open>None\<close>), \<open>new Date(null)\<close> is the epoch, \<open>new Date(d)\<close> copies the date \<open>d\<close>.
\<close>

fun newDate :: "time field \<Rightarrow> time option" where
  "newDate Undefined = None"
| "newDate Null = Some 0"
| "newDate (Val t) = Some t"

text \<open>
  Relational comparison of a date with the current date; a comparison with NaN is false.
\<close>

fun date_gt :: "time option \<Rightarrow> time \<Rightarrow> bool" where
  "date_gt None now = False"
| "date_gt (Some t) now = (t > now)"

fun date_le :: "time option \<Rightarrow> time \<Rightarrow> bool" where
  "date_le None now = False"
| "date_le (Some t) now = (t \<le> now)"

subsection \<open>The data model\<close>

text \<open>
  The schema \<open>qrToken\<close> of the plugin (and the interface \<open>QRToken\<close>). The field \<open>id\<close> is
  written \<open>id'\<close>. The four fields that are not required are optional properties.
\<close>

record qrToken =
  id' :: string
  token :: string
  createdAt :: time
  expiresAt :: time
  isUsed :: bool
  userId :: "string field"
  verifiedAt :: "time field"
  sessionCreationToken :: "string field"
  sessionCreationTokenExpiresAt :: "time field"

text \<open>A row of the host framework's \<open>user\<close> model: its \<open>id\<close> and the rest of it.\<close>

record user =
  user_id :: string
  user_profile :: string

text \<open>\<open>ctx.context.session\<close>, of which the handlers read \<open>session.user\<close>.\<close>

record session =
  session_user :: "user option"

text \<open>The store behind \<open>ctx.context.adapter\<close>: the rows of the two models the plugin reads.\<close>

record database =
  qrTokens :: "qrToken list"
  users :: "user list"

text \<open>The parsed plugin configuration (the endpoint paths play no part in the handlers).\<close>

record config =
  tokenExpirationMinutes :: int
  qrCodeSize :: int

subsection \<open>The adapter\<close>

text \<open>
  The adapter is the host framework's, so its four operations are modelled by their
  contract on a table, a list of rows: \<open>findOne\<close> returns the first row that matches the
  \<open>where\<close> clause, \<open>create\<close> adds a row, \<open>update\<close> and \<open>delete\<close> change or remove the
  rows that match the \<open>where\<close> clause (as the SQL statement with that clause does). On a
  table where at most one row matches, this is the change or removal of that row.
\<close>

definition adapter_findOne :: "('r \<Rightarrow> bool) \<Rightarrow> 'r list \<Rightarrow> 'r option" where
  "adapter_findOne wh rows = find wh rows"

definition adapter_create :: "'r \<Rightarrow> 'r list \<Rightarrow> 'r list" where
  "adapter_create r rows = rows @ [r]"

definition adapter_update :: "('r \<Rightarrow> bool) \<Rightarrow> ('r \<Rightarrow> 'r) \<Rightarrow> 'r list \<Rightarrow> 'r list" where
  "adapter_update wh upd rows = map (\<lambda>r. if wh r then upd r else r) rows"

definition adapter_delete :: "('r \<Rightarrow> bool) \<Rightarrow> 'r list \<Rightarrow> 'r list" where
  "adapter_delete wh rows = filter (\<lambda>r. \<not> wh r) rows"

text \<open>The three \<open>where\<close> clauses of the handlers, each one field with the operator \<open>eq\<close>.\<close>

definition where_id :: "string \<Rightarrow> qrToken \<Rightarrow> bool" where
  "where_id tokenId r = (id' r = tokenId)"

definition where_sessionCreationToken :: "string \<Rightarrow> qrToken \<Rightarrow> bool" where
  "where_sessionCreationToken s r = (sessionCreationToken r = Val s)"

definition where_user_id :: "string \<Rightarrow> user \<Rightarrow> bool" where
  "where_user_id uid u = (user_id u = uid)"

text \<open>
  The lookup of the user a row is bound to, \<open>findOne\<close> on the model \<open>user\<close> with the value
  \<open>qrToken.userId\<close>: a row with no \<open>userId\<close> matches no user.
\<close>

fun findUser :: "string field \<Rightarrow> user list \<Rightarrow> user option" where
  "findUser (Val uid) us = adapter_findOne (where_user_id uid) us"
| "findUser Undefined us = None"
| "findUser Null us = None"

subsection \<open>Responses\<close>

text \<open>
  The JSON bodies the handlers send with \<open>ctx.json\<close>. \<open>ErrorBody\<close> is \<open>{ error }\<close>. The
  image of the QR code is modelled by what \<open>QRCode.toDataURL\<close> is given: the payload
  \<open>{ tokenId, token, serverUrl }\<close> and the width.
\<close>

datatype qrImage = QRImage string string string int

datatype body =
    ErrorBody string
  | GenerateBody string qrImage time
  | VerifyBody string user string time
  | StatusBody string "string field" "user option" "string option" "time option" time
  | ClaimBody string user string time

text \<open>
  The fields of the bodies, in the order of the constructors' arguments:
  \<^item> \<open>GenerateBody tokenId qrCode expiresAt\<close>;
  \<^item> \<open>VerifyBody userId user sessionCreationToken sessionCreationTokenExpiresAt\<close>;
  \<^item> \<open>StatusBody status userId user sessionCreationToken verifiedAt expiresAt\<close>, where
    \<open>user\<close> is \<open>None\<close> for \<open>qrToken.user\<close> (the schema has no such field), the
    \<open>sessionCreationToken\<close> is \<open>None\<close> in the body that has no such property, and
    \<open>verifiedAt\<close> is \<open>None\<close> for \<open>null\<close>;
  \<^item> \<open>ClaimBody userId user sessionToken expiresAt\<close>.
  A response is the HTTP status with the body; \<open>ctx.json\<close> without a status sends 200.
\<close>

type_synonym response = "nat \<times> body"

definition json :: "body \<Rightarrow> response" where
  "json b = (200, b)"

definition json_status :: "body \<Rightarrow> nat \<Rightarrow> response" where
  "json_status b st = (st, b)"

text \<open>The \<open>sessionCreationToken\<close> a response carries, if any.\<close>

fun disclosed :: "response \<Rightarrow> string option" where
  "disclosed (st, VerifyBody uid u s e) = Some s"
| "disclosed (st, StatusBody status uid u s v e) = s"
| "disclosed (st, ErrorBody m) = None"
| "disclosed (st, GenerateBody t q e) = None"
| "disclosed (st, ClaimBody uid u s e) = None"

text \<open>The \<open>status\<close> property of a body of \<open>pollStatus\<close>.\<close>

fun status_of :: "response \<Rightarrow> string option" where
  "status_of (st, StatusBody status uid u s v e) = Some status"
| "status_of (st, ErrorBody m) = None"
| "status_of (st, GenerateBody t q e) = None"
| "status_of (st, VerifyBody uid u s e) = None"
| "status_of (st, ClaimBody uid u s e) = None"

subsection \<open>generateToken\<close>

text \<open>
  \<open>tokenId\<close> and \<open>secret\<close> are the two values of \<open>uuidv4()\<close>, \<open>now\<close> is \<open>new Date()\<close>. The
  row is created with the five required fields only.
\<close>

definition generateToken ::
  "config \<Rightarrow> database \<Rightarrow> string \<Rightarrow> string \<Rightarrow> string \<Rightarrow> time \<Rightarrow> database \<times> response" where
  "generateToken cfg db tokenId secret baseURL now =
     (let expires = now + tokenExpirationMinutes cfg * 60 * 1000;
          row = \<lparr>id' = tokenId, token = secret, createdAt = now, expiresAt = expires,
                 isUsed = False, userId = Undefined, verifiedAt = Undefined,
                 sessionCreationToken = Undefined,
                 sessionCreationTokenExpiresAt = Undefined\<rparr>
      in (db\<lparr>qrTokens := adapter_create row (qrTokens db)\<rparr>,
          json (GenerateBody tokenId (QRImage tokenId secret baseURL (qrCodeSize cfg)) expires)))"

subsection \<open>verifyToken\<close>

text \<open>
  The handler awaits the adapter twice: \<open>findOne\<close>, then \<open>delete\<close> or \<open>update\<close>. Other
  requests can run at an \<open>await\<close>, so the handler is two steps, each atomic on the store.
  \<open>verifyToken_lookup\<close> is the code up to the awaited \<open>findOne\<close>: it answers at once, or
  it hands on what the rest of the handler holds in its local variables.
\<close>

record verifyLocals =
  l_tokenId :: string
  l_token :: string
  l_user :: user
  l_qrToken :: "qrToken option"

definition verifyToken_lookup ::
  "database \<Rightarrow> string field \<Rightarrow> string field \<Rightarrow> session option \<Rightarrow> response + verifyLocals" where
  "verifyToken_lookup db tokenId secret sess =
     (if \<not> truthy tokenId \<or> \<not> truthy secret
      then Inl (json_status (ErrorBody ''Token ID and token are required'') 400)
      else case (tokenId, secret) of
        (Val tid, Val tok) \<Rightarrow>
          (case sess of
             None \<Rightarrow> Inl (json_status (ErrorBody ''No authenticated user'') 401)
           | Some s \<Rightarrow>
              (case session_user s of
                 None \<Rightarrow> Inl (json_status (ErrorBody ''No authenticated user'') 401)
               | Some u \<Rightarrow>
                   Inr \<lparr>l_tokenId = tid, l_token = tok, l_user = u,
                        l_qrToken = adapter_findOne (where_id tid) (qrTokens db)\<rparr>))
      | _ \<Rightarrow> Inl (json_status (ErrorBody ''Token ID and token are required'') 400))"

text \<open>
  \<open>verifyToken_finish\<close> is the code after the awaited \<open>findOne\<close>, on the store as it is
  then. \<open>sct\<close> is the value of \<open>uuidv4()\<close>; \<open>now\<close>, \<open>now_sct\<close> and \<open>now_verified\<close> are the
  three readings of the clock, in the order of the source: \<open>new Date()\<close> of the expiry
  check, \<open>Date.now()\<close> of the second expiry, \<open>new Date()\<close> of \<open>verifiedAt\<close>.
\<close>

definition verifyToken_finish ::
  "database \<Rightarrow> verifyLocals \<Rightarrow> string \<Rightarrow> time \<Rightarrow> time \<Rightarrow> time \<Rightarrow> database \<times> response" where
  "verifyToken_finish db l sct now now_sct now_verified =
     (case l_qrToken l of
        None \<Rightarrow> (db, json_status (ErrorBody ''Token not found'') 404)
      | Some q \<Rightarrow>
          if token q \<noteq> l_token l
          then (db, json_status (ErrorBody ''Invalid token'') 401)
          else if expiresAt q < now
          then (db\<lparr>qrTokens := adapter_delete (where_id (l_tokenId l)) (qrTokens db)\<rparr>,
                json_status (ErrorBody ''Token expired'') 410)
          else if isUsed q
          then (db, json_status (ErrorBody ''Token already used'') 409)
          else
            (let sessionCreationTokenExpires = now_sct + 5 * 60 * 1000
             in (db\<lparr>qrTokens :=
                      adapter_update (where_id (l_tokenId l))
                        (\<lambda>r. r\<lparr>isUsed := True,
                                userId := Val (user_id (l_user l)),
                                verifiedAt := Val now_verified,
                                sessionCreationToken := Val sct,
                                sessionCreationTokenExpiresAt := Val sessionCreationTokenExpires\<rparr>)
                        (qrTokens db)\<rparr>,
                 json (VerifyBody (user_id (l_user l)) (l_user l) sct sessionCreationTokenExpires))))"

text \<open>The handler run with no other request in between its two steps.\<close>

definition verifyToken ::
  "database \<Rightarrow> string field \<Rightarrow> string field \<Rightarrow> session option \<Rightarrow> string \<Rightarrow> time \<Rightarrow> time \<Rightarrow> time
     \<Rightarrow> database \<times> response" where
  "verifyToken db tokenId secret sess sct now now_sct now_verified =
     (case verifyToken_lookup db tokenId secret sess of
        Inl resp \<Rightarrow> (db, resp)
      | Inr l \<Rightarrow> verifyToken_finish db l sct now now_sct now_verified)"

subsection \<open>pollStatus\<close>

text \<open>
  The handler is taken as one step on the store: the properties of \<open>pollStatus\<close> below
  are about a single call.
\<close>

text \<open>
  \<open>tokenId\<close> is \<open>url.searchParams.get('tokenId')\<close>, \<open>None\<close> when the query has no such
  parameter. \<open>now\<close> is \<open>new Date()\<close> of the expiry check, \<open>now2\<close> is \<open>new Date()\<close> of the
  check of the session creation token, read after the awaited lookup of the user.
\<close>

definition pollStatus ::
  "database \<Rightarrow> string option \<Rightarrow> time \<Rightarrow> time \<Rightarrow> database \<times> response" where
  "pollStatus db tokenId now now2 =
     (case tokenId of
        None \<Rightarrow> (db, json_status (ErrorBody ''Token ID required'') 400)
      | Some tid \<Rightarrow>
          if tid = [] then (db, json_status (ErrorBody ''Token ID required'') 400)
          else
            (case adapter_findOne (where_id tid) (qrTokens db) of
               None \<Rightarrow> (db, json_status (ErrorBody ''Token not found'') 404)
             | Some q \<Rightarrow>
                 if expiresAt q < now
                 then (db\<lparr>qrTokens := adapter_delete (where_id tid) (qrTokens db)\<rparr>,
                       json_status (ErrorBody ''Token expired'') 410)
                 else
                   (let verified = (if truthyDate (verifiedAt q) then newDate (verifiedAt q) else None);
                        fallthrough =
                          (db, json (StatusBody (if isUsed q then ''completed'' else ''pending'')
                                       (userId q) None None verified (expiresAt q)))
                    in if isUsed q
                       then
                         (case findUser (userId q) (users db) of
                            None \<Rightarrow> fallthrough
                          | Some u \<Rightarrow>
                              (case sessionCreationToken q of
                                 Val s \<Rightarrow>
                                   if s \<noteq> [] \<and>
                                      date_gt (newDate (sessionCreationTokenExpiresAt q)) now2
                                   then (db, json (StatusBody ''completed'' (userId q) (Some u)
                                                     (Some s) verified (expiresAt q)))
                                   else fallthrough
                               | _ \<Rightarrow> fallthrough))
                       else fallthrough)))"

subsection \<open>claimSession\<close>

text \<open>
  What the handler gets from the host framework: \<open>createSession\<close> returns a session (its
  \<open>token\<close> and \<open>expiresAt\<close>) or nothing, or throws; \<open>setSessionCookie\<close> returns or throws. A
  thrown value is an \<open>Error\<close> with its message, or something else.
\<close>

record newSession =
  session_token :: string
  session_expiresAt :: time

datatype thrown = ErrorObject string | OtherValue

datatype 'a outcome = Returns 'a | Throws thrown

fun failure :: "thrown \<Rightarrow> response" where
  "failure (ErrorObject m) = json_status (ErrorBody (''Failed to create session: '' @ m)) 500"
| "failure OtherValue = json_status (ErrorBody (''Failed to create session: '' @ ''Unknown error'')) 500"

text \<open>The update that clears the session creation token of a row.\<close>

definition clearSessionCreationToken :: "qrToken \<Rightarrow> qrToken" where
  "clearSessionCreationToken r =
     r\<lparr>sessionCreationToken := Null, sessionCreationTokenExpiresAt := Null\<rparr>"

text \<open>
  As \<open>verifyToken\<close>, the handler awaits the adapter's \<open>findOne\<close> first and writes to the
  store last, in its \<open>update\<close>; other requests can run in between, so the handler is two
  steps, each atomic on the store. \<open>claimSession_lookup\<close> is the code up to the awaited
  \<open>findOne\<close>, where \<open>sct\<close> is \<open>ctx.body.sessionCreationToken\<close>: it answers at once, or it
  hands on what the rest of the handler holds in its local variables.
\<close>

record claimLocals =
  l_sessionCreationToken :: string
  l_claimed :: "qrToken option"

definition claimSession_lookup :: "database \<Rightarrow> string field \<Rightarrow> response + claimLocals" where
  "claimSession_lookup db sct =
     (case sct of
        Val s \<Rightarrow>
          if s = [] then Inl (json_status (ErrorBody ''Session creation token is required'') 400)
          else Inr \<lparr>l_sessionCreationToken = s,
                    l_claimed = adapter_findOne (where_sessionCreationToken s) (qrTokens db)\<rparr>
      | _ \<Rightarrow> Inl (json_status (ErrorBody ''Session creation token is required'') 400))"

text \<open>
  \<open>claimSession_finish\<close> is the code after the awaited \<open>findOne\<close>, on the store as it is
  then. \<open>now\<close> is \<open>new Date()\<close>, \<open>created\<close> and \<open>cookie\<close> are the outcomes of
  \<open>createSession\<close> and of \<open>setSessionCookie\<close> (which is called only when a session was
  created). The plugin never writes to the users, and the update that clears the token
  is the only write of the handler and does not depend on what the row holds then, so
  the awaits of the user lookup, of \<open>createSession\<close> and of \<open>setSessionCookie\<close> are not
  further steps.
\<close>

definition claimSession_finish ::
  "database \<Rightarrow> claimLocals \<Rightarrow> time \<Rightarrow> newSession option outcome \<Rightarrow> unit outcome
     \<Rightarrow> database \<times> response" where
  "claimSession_finish db l now created cookie =
     (case l_claimed l of
        None \<Rightarrow> (db, json_status (ErrorBody ''Invalid session creation token'') 404)
      | Some q \<Rightarrow>
          if \<not> isUsed q \<or> \<not> truthy (userId q)
          then (db, json_status (ErrorBody ''QR token not properly verified'') 400)
          else if date_le (newDate (sessionCreationTokenExpiresAt q)) now
          then (db, json_status (ErrorBody ''Session creation token expired'') 410)
          else
            (case findUser (userId q) (users db) of
               None \<Rightarrow> (db, json_status (ErrorBody ''User not found'') 404)
             | Some u \<Rightarrow>
                 (case created of
                    Throws e \<Rightarrow> (db, failure e)
                  | Returns None \<Rightarrow>
                      (db, json_status (ErrorBody ''Failed to create session'') 500)
                  | Returns (Some sessionToken) \<Rightarrow>
                      (case cookie of
                         Throws e \<Rightarrow> (db, failure e)
                       | Returns _ \<Rightarrow>
                           (db\<lparr>qrTokens :=
                                 adapter_update
                                   (where_sessionCreationToken (l_sessionCreationToken l))
                                   clearSessionCreationToken (qrTokens db)\<rparr>,
                            json (ClaimBody (case userId q of Val uid \<Rightarrow> uid | _ \<Rightarrow> [])
                                    u (session_token sessionToken)
                                    (session_expiresAt sessionToken)))))))"

text \<open>The handler run with no other request in between its two steps.\<close>

definition claimSession ::
  "database \<Rightarrow> string field \<Rightarrow> time \<Rightarrow> newSession option outcome \<Rightarrow> unit outcome
     \<Rightarrow> database \<times> response" where
  "claimSession db sct now created cookie =
     (case claimSession_lookup db sct of
        Inl resp \<Rightarrow> (db, resp)
      | Inr l \<Rightarrow> claimSession_finish db l now created cookie)"

subsection \<open>Requests and runs\<close>

text \<open>
  A request to one of the four endpoints, with everything its handler takes from
  outside, and the handling of a sequence of requests one after the other: \<open>run\<close>
  handles each request to its end before the next starts. Requests that overlap are
  not runs; they are modelled apart, from the steps of the handlers.
\<close>

datatype request =
    GenerateToken string string string time
  | VerifyToken "string field" "string field" "session option" string time time time
  | PollStatus "string option" time time
  | ClaimSession "string field" time "newSession option outcome" "unit outcome"

fun handle :: "config \<Rightarrow> database \<Rightarrow> request \<Rightarrow> database \<times> response" where
  "handle cfg db (GenerateToken tokenId secret baseURL now) =
     generateToken cfg db tokenId secret baseURL now"
| "handle cfg db (VerifyToken tokenId secret sess sct now now_sct now_verified) =
     verifyToken db tokenId secret sess sct now now_sct now_verified"
| "handle cfg db (PollStatus tokenId now now2) = pollStatus db tokenId now now2"
| "handle cfg db (ClaimSession sct now created cookie) = claimSession db sct now created cookie"

fun run :: "config \<Rightarrow> database \<Rightarrow> request list \<Rightarrow> database" where
  "run cfg db [] = db"
| "run cfg db (r # rs) = run cfg (fst (handle cfg db r)) rs"

subsection \<open>Verification requests one after the other, and overlapping\<close>

text \<open>A call of \<open>verifyToken\<close> with everything the handler takes from outside.\<close>

record verifyCall =
  c_tokenId :: "string field"
  c_token :: "string field"
  c_session :: "session option"
  c_sct :: string
  c_now :: time
  c_now_sct :: time
  c_now_verified :: time

definition call_lookup :: "database \<Rightarrow> verifyCall \<Rightarrow> response + verifyLocals" where
  "call_lookup db c = verifyToken_lookup db (c_tokenId c) (c_token c) (c_session c)"

definition call_finish ::
  "database \<Rightarrow> response + verifyLocals \<Rightarrow> verifyCall \<Rightarrow> database \<times> response" where
  "call_finish db lk c =
     (case lk of
        Inl resp \<Rightarrow> (db, resp)
      | Inr l \<Rightarrow> verifyToken_finish db l (c_sct c) (c_now c) (c_now_sct c) (c_now_verified c))"

definition verifyToken_call :: "database \<Rightarrow> verifyCall \<Rightarrow> database \<times> response" where
  "verifyToken_call db c =
     verifyToken db (c_tokenId c) (c_token c) (c_session c) (c_sct c) (c_now c) (c_now_sct c)
       (c_now_verified c)"

text \<open>The calls handled one after the other, each to its end before the next starts.\<close>

fun verifyToken_sequential :: "database \<Rightarrow> verifyCall list \<Rightarrow> database \<times> response list" where
  "verifyToken_sequential db [] = (db, [])"
| "verifyToken_sequential db (c # cs) =
     (let (db1, r) = verifyToken_call db c;
          (db2, rs) = verifyToken_sequential db1 cs
      in (db2, r # rs))"

text \<open>
  Two calls that overlap: the awaited \<open>findOne\<close> of both has returned before either
  handler goes on.
\<close>

definition verifyToken_overlapped ::
  "database \<Rightarrow> verifyCall \<Rightarrow> verifyCall \<Rightarrow> database \<times> response \<times> response" where
  "verifyToken_overlapped db a b =
     (let la = call_lookup db a;
          lb = call_lookup db b;
          (db1, ra) = call_finish db la a;
          (db2, rb) = call_finish db1 lb b
      in (db2, ra, rb))"

text \<open>
  A call for the record \<open>q\<close> of the token \<open>tid\<close>: it names \<open>tid\<close>, supplies the stored
  secret, comes from an authenticated caller and reads the clock before \<open>q\<close> expires.
\<close>

definition correctCall :: "string \<Rightarrow> qrToken \<Rightarrow> verifyCall \<Rightarrow> bool" where
  "correctCall tid q c =
     (c_tokenId c = Val tid \<and> c_token c = Val (token q) \<and>
      (case c_session c of None \<Rightarrow> False | Some sess \<Rightarrow> session_user sess \<noteq> None) \<and>
      c_now c \<le> expiresAt q)"

subsection \<open>Claims that overlap\<close>

text \<open>A call of \<open>claimSession\<close> with everything the handler takes from outside.\<close>

record claimCall =
  k_sct :: "string field"
  k_now :: time
  k_created :: "newSession option outcome"
  k_cookie :: "unit outcome"

definition claim_finish ::
  "database \<Rightarrow> response + claimLocals \<Rightarrow> claimCall \<Rightarrow> database \<times> response" where
  "claim_finish db lk c =
     (case lk of
        Inl resp \<Rightarrow> (db, resp)
      | Inr l \<Rightarrow> claimSession_finish db l (k_now c) (k_created c) (k_cookie c))"

text \<open>
  Two calls that overlap: the awaited \<open>findOne\<close> of both has returned before either
  handler goes on.
\<close>

definition claimSession_overlapped ::
  "database \<Rightarrow> claimCall \<Rightarrow> claimCall \<Rightarrow> database \<times> response \<times> response" where
  "claimSession_overlapped db a b =
     (let la = claimSession_lookup db (k_sct a);
          lb = claimSession_lookup db (k_sct b);
          (db1, ra) = claim_finish db la a;
          (db2, rb) = claim_finish db1 lb b
      in (db2, ra, rb))"

subsection \<open>The invariant of a record\<close>

definition isSet :: "'a field \<Rightarrow> bool" where
  "isSet f = (case f of Val v \<Rightarrow> True | Undefined \<Rightarrow> False | Null \<Rightarrow> False)"

definition recordInvariant :: "qrToken \<Rightarrow> bool" where
  "recordInvariant r =
     (if isUsed r then isSet (userId r) \<and> isSet (verifiedAt r)
      else \<not> isSet (userId r) \<and> \<not> isSet (verifiedAt r) \<and> \<not> isSet (sessionCreationToken r))"

text \<open>A request that stores \<open>s\<close> as a session creation token if it succeeds.\<close>

fun mints :: "request \<Rightarrow> string \<Rightarrow> bool" where
  "mints (VerifyToken tokenId secret sess sct now now_sct now_verified) s = (sct = s)"
| "mints (GenerateToken tokenId secret baseURL now) s = False"
| "mints (PollStatus tokenId now now2) s = False"
| "mints (ClaimSession sct now created cookie) s = False"

text \<open>What \<open>pollStatus\<close> answers for a record it found expired.\<close>

definition tokenExpired :: response where
  "tokenExpired = json_status (ErrorBody ''Token expired'') 410"

subsection \<open>A concrete run\<close>

text \<open>
  One user, a token generated at time 0 with the default expiration of five minutes, and
  its verification by that user at time 1000.
\<close>

definition ex_config :: config where
  "ex_config = \<lparr>tokenExpirationMinutes = 5, qrCodeSize = 256\<rparr>"

definition ex_user :: user where
  "ex_user = \<lparr>user_id = ''u1'', user_profile = ''p''\<rparr>"

definition ex_session :: session where
  "ex_session = \<lparr>session_user = Some ex_user\<rparr>"

definition ex_row :: qrToken where
  "ex_row = \<lparr>id' = ''a'', token = ''s'', createdAt = 0, expiresAt = 300000,
              isUsed = False, userId = Undefined, verifiedAt = Undefined,
              sessionCreationToken = Undefined,
              sessionCreationTokenExpiresAt = Undefined\<rparr>"

definition ex_row_verified :: qrToken where
  "ex_row_verified = ex_row\<lparr>isUsed := True, userId := Val ''u1'', verifiedAt := Val 1000,
              sessionCreationToken := Val ''c'',
              sessionCreationTokenExpiresAt := Val 301000\<rparr>"

definition ex_empty :: database where
  "ex_empty = \<lparr>qrTokens = [], users = [ex_user]\<rparr>"

definition ex_pending :: database where
  "ex_pending = \<lparr>qrTokens = [ex_row], users = [ex_user]\<rparr>"

definition ex_verified :: database where
  "ex_verified = \<lparr>qrTokens = [ex_row_verified], users = [ex_user]\<rparr>"

text \<open>
  The same token generated with an expiration of sixty minutes: after its verification at
  time 1000 its second expiry (301000) comes before its first (3600000).
\<close>

definition ex_row_long :: qrToken where
  "ex_row_long = ex_row_verified\<lparr>expiresAt := 3600000\<rparr>"

definition ex_verified_long :: database where
  "ex_verified_long = \<lparr>qrTokens = [ex_row_long], users = [ex_user]\<rparr>"

definition ex_call :: verifyCall where
  "ex_call = \<lparr>c_tokenId = Val ''a'', c_token = Val ''s'', c_session = Some ex_session,
               c_sct = ''c'', c_now = 1000, c_now_sct = 1000, c_now_verified = 1000\<rparr>"

definition ex_newSession :: newSession where
  "ex_newSession = \<lparr>session_token = ''t'', session_expiresAt = 900000\<rparr>"

text \<open>Two claims of the token of the verified record, at times 2000 and 2001.\<close>

definition ex_claimCall :: claimCall where
  "ex_claimCall = \<lparr>k_sct = Val ''c'', k_now = 2000, k_created = Returns (Some ex_newSession),
                    k_cookie = Returns ()\<rparr>"

definition ex_claimCall2 :: claimCall where
  "ex_claimCall2 = \<lparr>k_sct = Val ''c'', k_now = 2001,
                     k_created = Returns (Some \<lparr>session_token = ''t2'', session_expiresAt = 900001\<rparr>),
                     k_cookie = Returns ()\<rparr>"

section \<open>Properties\<close>

subsection \<open>Lookups after an update or a removal\<close>

lemma find_update_same:
  "(\<And>r. wh (upd r) = wh r) \<Longrightarrow>
   find wh (map (\<lambda>r. if wh r then upd r else r) rows) = map_option upd (find wh rows)"
  by (induction rows) auto

lemma find_update_other:
  "(\<And>r. wh' (upd r) = wh' r) \<Longrightarrow>
   find wh' (map (\<lambda>r. if wh r then upd r else r) rows) =
   map_option (\<lambda>r. if wh r then upd r else r) (find wh' rows)"
  by (induction rows) auto

lemma find_delete_none: "find wh (filter (\<lambda>r. \<not> wh r) rows) = None"
  by (induction rows) auto

lemma findOne_verified:
  "adapter_findOne (where_id tid) (adapter_update (where_id tid)
      (\<lambda>r. r\<lparr>isUsed := True, userId := a, verifiedAt := b, sessionCreationToken := c,
              sessionCreationTokenExpiresAt := d\<rparr>) rows) =
   map_option (\<lambda>r. r\<lparr>isUsed := True, userId := a, verifiedAt := b, sessionCreationToken := c,
              sessionCreationTokenExpiresAt := d\<rparr>) (adapter_findOne (where_id tid) rows)"
  unfolding adapter_findOne_def adapter_update_def
  by (rule find_update_same) (simp add: where_id_def)

lemma findOne_cleared:
  "adapter_findOne (where_id tid)
     (adapter_update (where_sessionCreationToken s) clearSessionCreationToken rows) =
   map_option
     (\<lambda>r. if sessionCreationToken r = Val s
           then r\<lparr>sessionCreationToken := Null, sessionCreationTokenExpiresAt := Null\<rparr>
           else r)
     (adapter_findOne (where_id tid) rows)"
  unfolding adapter_findOne_def adapter_update_def where_sessionCreationToken_def
    clearSessionCreationToken_def
  by (rule find_update_other) (simp add: where_id_def)

lemma findOne_deleted: "adapter_findOne wh (adapter_delete wh rows) = None"
  by (simp add: adapter_findOne_def adapter_delete_def find_delete_none)

subsection \<open>The handler of a claim as one step\<close>

lemma claimSession_unfold:
  "claimSession db sct now created cookie =
     (case sct of
        Val s \<Rightarrow>
          if s = [] then (db, json_status (ErrorBody ''Session creation token is required'') 400)
          else
            (case adapter_findOne (where_sessionCreationToken s) (qrTokens db) of
               None \<Rightarrow> (db, json_status (ErrorBody ''Invalid session creation token'') 404)
             | Some q \<Rightarrow>
                 if \<not> isUsed q \<or> \<not> truthy (userId q)
                 then (db, json_status (ErrorBody ''QR token not properly verified'') 400)
                 else if date_le (newDate (sessionCreationTokenExpiresAt q)) now
                 then (db, json_status (ErrorBody ''Session creation token expired'') 410)
                 else
                   (case findUser (userId q) (users db) of
                      None \<Rightarrow> (db, json_status (ErrorBody ''User not found'') 404)
                    | Some u \<Rightarrow>
                        (case created of
                           Throws e \<Rightarrow> (db, failure e)
                         | Returns None \<Rightarrow>
                             (db, json_status (ErrorBody ''Failed to create session'') 500)
                         | Returns (Some sessionToken) \<Rightarrow>
                             (case cookie of
                                Throws e \<Rightarrow> (db, failure e)
                              | Returns _ \<Rightarrow>
                                  (db\<lparr>qrTokens :=
                                        adapter_update (where_sessionCreationToken s)
                                          clearSessionCreationToken (qrTokens db)\<rparr>,
                                   json (ClaimBody (case userId q of Val uid \<Rightarrow> uid | _ \<Rightarrow> [])
                                           u (session_token sessionToken)
                                           (session_expiresAt sessionToken)))))))
      | _ \<Rightarrow> (db, json_status (ErrorBody ''Session creation token is required'') 400))"
  by (simp add: claimSession_def claimSession_lookup_def claimSession_finish_def
      split: field.splits option.splits outcome.splits)

subsection \<open>Evaluation on the concrete run\<close>

lemmas ex_defs = ex_config_def ex_user_def ex_session_def ex_row_def ex_row_verified_def
  ex_empty_def ex_pending_def ex_verified_def ex_call_def ex_newSession_def
  ex_row_long_def ex_verified_long_def ex_claimCall_def ex_claimCall2_def

lemmas handler_defs = verifyToken_def verifyToken_lookup_def verifyToken_finish_def
  pollStatus_def claimSession_unfold generateToken_def json_def json_status_def
  adapter_findOne_def adapter_update_def adapter_delete_def adapter_create_def
  where_id_def where_sessionCreationToken_def where_user_id_def
  clearSessionCreationToken_def Let_def

lemma ex_claim:
  "claimSession ex_verified (Val ''c'') 2000 (Returns (Some ex_newSession)) (Returns ()) =
     (\<lparr>qrTokens = [ex_row_verified\<lparr>sessionCreationToken := Null,
                       sessionCreationTokenExpiresAt := Null\<rparr>], users = [ex_user]\<rparr>,
      (200, ClaimBody ''u1'' ex_user ''t'' 900000))"
  by (simp add: handler_defs ex_defs)

subsection \<open>How the handlers change the table\<close>

lemma failure_status: "fst (failure e) = 500"
  by (cases e) (simp_all add: json_status_def)

lemma claimSession_success:
  assumes "fst (snd (claimSession db sct now created cookie)) = 200"
  shows "\<exists>s q u ns. sct = Val s \<and> s \<noteq> [] \<and>
           adapter_findOne (where_sessionCreationToken s) (qrTokens db) = Some q \<and>
           isUsed q \<and> truthy (userId q) \<and>
           \<not> date_le (newDate (sessionCreationTokenExpiresAt q)) now \<and>
           findUser (userId q) (users db) = Some u \<and>
           created = Returns (Some ns) \<and> cookie = Returns () \<and>
           claimSession db sct now created cookie =
             (db\<lparr>qrTokens := adapter_update (where_sessionCreationToken s)
                     clearSessionCreationToken (qrTokens db)\<rparr>,
              (200, ClaimBody (case userId q of Val uid \<Rightarrow> uid | _ \<Rightarrow> []) u
                      (session_token ns) (session_expiresAt ns)))"
  using assms
  by (auto simp: claimSession_unfold json_def json_status_def failure_status
      split: field.split_asm if_split_asm option.split_asm outcome.split_asm)

lemma claimSession_unchanged:
  "fst (snd (claimSession db sct now created cookie)) \<noteq> 200 \<Longrightarrow>
   fst (claimSession db sct now created cookie) = db"
  by (auto simp: claimSession_unfold json_def json_status_def
      split: field.splits if_splits option.splits outcome.splits)

lemma pollStatus_table:
  "fst (pollStatus db tokenId now now2) = db \<or>
   (\<exists>tid. fst (pollStatus db tokenId now now2) =
      db\<lparr>qrTokens := adapter_delete (where_id tid) (qrTokens db)\<rparr>)"
  by (auto simp: pollStatus_def Let_def split: option.splits field.splits)

lemma verifyToken_table:
  "fst (verifyToken db tokenId secret sess sct now now_sct now_verified) = db \<or>
   (\<exists>tid. fst (verifyToken db tokenId secret sess sct now now_sct now_verified) =
      db\<lparr>qrTokens := adapter_delete (where_id tid) (qrTokens db)\<rparr>) \<or>
   (\<exists>tid uid. fst (verifyToken db tokenId secret sess sct now now_sct now_verified) =
      db\<lparr>qrTokens := adapter_update (where_id tid)
            (\<lambda>r. r\<lparr>isUsed := True, userId := Val uid, verifiedAt := Val now_verified,
                    sessionCreationToken := Val sct,
                    sessionCreationTokenExpiresAt := Val (now_sct + 300000)\<rparr>)
            (qrTokens db)\<rparr>)"
  by (auto simp: verifyToken_def verifyToken_lookup_def verifyToken_finish_def Let_def
      split: option.splits field.splits sum.splits if_splits)

lemma generateToken_table:
  "qrTokens (fst (generateToken cfg db tokenId secret baseURL now)) =
     qrTokens db @
       [\<lparr>id' = tokenId, token = secret, createdAt = now,
         expiresAt = now + tokenExpirationMinutes cfg * 60 * 1000,
         isUsed = False, userId = Undefined, verifiedAt = Undefined,
         sessionCreationToken = Undefined, sessionCreationTokenExpiresAt = Undefined\<rparr>]"
  by (simp add: generateToken_def adapter_create_def Let_def)

lemma list_all_delete: "list_all P rows \<Longrightarrow> list_all P (adapter_delete wh rows)"
  by (simp add: adapter_delete_def list_all_iff)

lemma list_all_update:
  "list_all P rows \<Longrightarrow> (\<And>r. wh r \<Longrightarrow> P r \<Longrightarrow> P (upd r)) \<Longrightarrow>
   list_all P (adapter_update wh upd rows)"
  by (auto simp: adapter_update_def list_all_iff)

lemma verifyToken_found:
  assumes "tid \<noteq> []" "tok \<noteq> []" "session_user sess = Some u"
  shows "verifyToken db (Val tid) (Val tok) (Some sess) sct now now_sct now_verified =
     verifyToken_finish db
       \<lparr>l_tokenId = tid, l_token = tok, l_user = u,
        l_qrToken = adapter_findOne (where_id tid) (qrTokens db)\<rparr> sct now now_sct now_verified"
  using assms by (simp add: verifyToken_def verifyToken_lookup_def)

subsection \<open>verifyToken: the effect of a verification\<close>

text \<open>
  Claim C5. For a pending record that has not expired, found for the \<open>tokenId\<close> of the
  request, with the stored secret supplied and an authenticated caller, \<open>verifyToken\<close>
  answers 200 with the caller's identity and the generated session creation token, and
  the record found for that \<open>tokenId\<close> afterwards is the old one with \<open>isUsed\<close> true,
  \<open>userId\<close> the caller's id, \<open>verifiedAt\<close> the time read for it, the generated
  \<open>sessionCreationToken\<close>, and \<open>sessionCreationTokenExpiresAt\<close> five minutes (300000 ms)
  after the time read for it, whatever \<open>expiresAt\<close> is.
\<close>

theorem verifyToken_binds:
  assumes found: "adapter_findOne (where_id tid) (qrTokens db) = Some q"
    and req: "tid \<noteq> []" "token q \<noteq> []"
    and caller: "session_user sess = Some u"
    and pending: "\<not> isUsed q"
    and live: "now \<le> expiresAt q"
  shows "snd (verifyToken db (Val tid) (Val (token q)) (Some sess) sct now now_sct now_verified) =
           (200, VerifyBody (user_id u) u sct (now_sct + 300000)) \<and>
         adapter_findOne (where_id tid)
           (qrTokens (fst (verifyToken db (Val tid) (Val (token q)) (Some sess) sct now now_sct
              now_verified))) =
           Some (q\<lparr>isUsed := True, userId := Val (user_id u), verifiedAt := Val now_verified,
                   sessionCreationToken := Val sct,
                   sessionCreationTokenExpiresAt := Val (now_sct + 300000)\<rparr>) \<and>
         users (fst (verifyToken db (Val tid) (Val (token q)) (Some sess) sct now now_sct
              now_verified)) = users db"
proof -
  have lk: "verifyToken_lookup db (Val tid) (Val (token q)) (Some sess) =
      Inr \<lparr>l_tokenId = tid, l_token = token q, l_user = u, l_qrToken = Some q\<rparr>"
    using found req caller by (simp add: verifyToken_lookup_def)
  have fin: "verifyToken db (Val tid) (Val (token q)) (Some sess) sct now now_sct now_verified =
      (db\<lparr>qrTokens := adapter_update (where_id tid)
             (\<lambda>r. r\<lparr>isUsed := True, userId := Val (user_id u), verifiedAt := Val now_verified,
                     sessionCreationToken := Val sct,
                     sessionCreationTokenExpiresAt := Val (now_sct + 300000)\<rparr>) (qrTokens db)\<rparr>,
       (200, VerifyBody (user_id u) u sct (now_sct + 300000)))"
    using pending live by (simp add: verifyToken_def lk verifyToken_finish_def json_def Let_def)
  show ?thesis
    by (simp add: fin findOne_verified found)
qed

text \<open>
The token of the concrete run, verified at time 1000.
\<close>

theorem verifyToken_binds_witness:
  "snd (verifyToken ex_pending (Val ''a'') (Val ''s'') (Some ex_session) ''c'' 1000 1000 1000) =
     (200, VerifyBody ''u1'' ex_user ''c'' 301000) \<and>
   adapter_findOne (where_id ''a'')
     (qrTokens (fst (verifyToken ex_pending (Val ''a'') (Val ''s'') (Some ex_session) ''c'' 1000
        1000 1000))) = Some ex_row_verified"
proof -
  have found: "adapter_findOne (where_id ''a'') (qrTokens ex_pending) = Some ex_row"
    by (simp add: ex_pending_def ex_row_def adapter_findOne_def where_id_def)
  have caller: "session_user ex_session = Some ex_user"
    by (simp add: ex_session_def)
  have "''a'' \<noteq> []" "token ex_row \<noteq> []" "\<not> isUsed ex_row" "1000 \<le> expiresAt ex_row"
    by (simp_all add: ex_row_def)
  from verifyToken_binds [OF found this(1,2) caller this(3,4), of "''c''" 1000 1000]
  show ?thesis
    by (simp add: ex_row_def ex_row_verified_def ex_user_def)
qed

subsection \<open>verifyToken: the order of the checks\<close>

text \<open>
  Claim C3 as stated fails. It puts the expiry check before the comparison of the
  secret; the handler compares the secret first. For the expired record of the concrete
  run and a wrong secret the answer is 401 \<open>Invalid token\<close>, not the expired outcome, and
  the record is not evicted.
\<close>

theorem verifyToken_order_counterexample:
  "expiresAt ex_row < 999999 \<and> token ex_row \<noteq> ''x'' \<and>
   verifyToken ex_pending (Val ''a'') (Val ''x'') (Some ex_session) ''c'' 999999 999999 999999 =
     (ex_pending, (401, ErrorBody ''Invalid token''))"
  by (simp add: handler_defs ex_defs)

text \<open>
  Claim C3, amended. For a request with both fields and an authenticated caller, the
  checks of \<open>verifyToken\<close> run in this order, each a terminal failure: (1) a record exists
  for the id (else 404 \<open>Token not found\<close>), (2) the supplied secret is the stored one (else
  401 \<open>Invalid token\<close>, whether or not the record has expired, and the record stays),
  (3) the record has not expired, \<open>now \<le> expiresAt\<close> (else the rows of that id are
  evicted and the answer is 410 \<open>Token expired\<close>), (4) the record is not used (else 409
  \<open>Token already used\<close>); a request that passes all four succeeds.
\<close>

theorem verifyToken_order:
  assumes "tid \<noteq> []" "tok \<noteq> []" "session_user sess = Some u"
  shows "(adapter_findOne (where_id tid) (qrTokens db) = None \<longrightarrow>
            verifyToken db (Val tid) (Val tok) (Some sess) sct now now_sct now_verified =
              (db, (404, ErrorBody ''Token not found''))) \<and>
         (\<forall>q. adapter_findOne (where_id tid) (qrTokens db) = Some q \<longrightarrow>
            (token q \<noteq> tok \<longrightarrow>
               verifyToken db (Val tid) (Val tok) (Some sess) sct now now_sct now_verified =
                 (db, (401, ErrorBody ''Invalid token''))) \<and>
            (token q = tok \<and> expiresAt q < now \<longrightarrow>
               verifyToken db (Val tid) (Val tok) (Some sess) sct now now_sct now_verified =
                 (db\<lparr>qrTokens := adapter_delete (where_id tid) (qrTokens db)\<rparr>,
                  (410, ErrorBody ''Token expired'')) \<and>
               adapter_findOne (where_id tid)
                 (qrTokens (fst (verifyToken db (Val tid) (Val tok) (Some sess) sct now now_sct
                    now_verified))) = None) \<and>
            (token q = tok \<and> now \<le> expiresAt q \<and> isUsed q \<longrightarrow>
               verifyToken db (Val tid) (Val tok) (Some sess) sct now now_sct now_verified =
                 (db, (409, ErrorBody ''Token already used''))) \<and>
            (token q = tok \<and> now \<le> expiresAt q \<and> \<not> isUsed q \<longrightarrow>
               snd (verifyToken db (Val tid) (Val tok) (Some sess) sct now now_sct now_verified) =
                 (200, VerifyBody (user_id u) u sct (now_sct + 300000))))"
  by (auto simp: verifyToken_found [OF assms] verifyToken_finish_def json_def json_status_def
      findOne_deleted Let_def)

text \<open>
Each of the four failures on the concrete run.
\<close>

theorem verifyToken_order_witness:
  "verifyToken ex_pending (Val ''a'') (Val ''x'') (Some ex_session) ''c'' 999999 999999 999999 =
     (ex_pending, (401, ErrorBody ''Invalid token'')) \<and>
   verifyToken ex_pending (Val ''a'') (Val ''s'') (Some ex_session) ''c'' 999999 999999 999999 =
     (ex_empty, (410, ErrorBody ''Token expired'')) \<and>
   verifyToken ex_verified (Val ''a'') (Val ''s'') (Some ex_session) ''c'' 2000 2000 2000 =
     (ex_verified, (409, ErrorBody ''Token already used'')) \<and>
   verifyToken ex_pending (Val ''b'') (Val ''s'') (Some ex_session) ''c'' 2000 2000 2000 =
     (ex_pending, (404, ErrorBody ''Token not found''))"
proof -
  have req: "''a'' \<noteq> []" "''x'' \<noteq> []" "''s'' \<noteq> []" "''b'' \<noteq> []"
    "session_user ex_session = Some ex_user"
    by (simp_all add: ex_session_def)
  have f1: "adapter_findOne (where_id ''a'') (qrTokens ex_pending) = Some ex_row"
    and f2: "adapter_findOne (where_id ''a'') (qrTokens ex_verified) = Some ex_row_verified"
    and f3: "adapter_findOne (where_id ''b'') (qrTokens ex_pending) = None"
    by (simp_all add: adapter_findOne_def where_id_def ex_defs)
  have rows: "token ex_row \<noteq> ''x''" "token ex_row = ''s''" "expiresAt ex_row < 999999"
    "token ex_row_verified = ''s''" "2000 \<le> expiresAt ex_row_verified" "isUsed ex_row_verified"
    by (simp_all add: ex_defs)
  have del: "ex_pending\<lparr>qrTokens := adapter_delete (where_id ''a'') (qrTokens ex_pending)\<rparr> = ex_empty"
    by (simp add: adapter_delete_def where_id_def ex_defs)
  from verifyToken_order [OF req(1) req(2) req(5), of ex_pending "''c''" 999999 999999 999999]
    verifyToken_order [OF req(1) req(3) req(5), of ex_pending "''c''" 999999 999999 999999]
    verifyToken_order [OF req(1) req(3) req(5), of ex_verified "''c''" 2000 2000 2000]
    verifyToken_order [OF req(4) req(3) req(5), of ex_pending "''c''" 2000 2000 2000]
    f1 f2 f3 rows del
  show ?thesis by simp
qed

subsection \<open>verifyToken: not found and wrong secret\<close>

text \<open>
  Claim C7 as stated fails. A request for an id that has no record and a request with a
  wrong secret for a record that exists get different messages and different statuses.
\<close>

theorem verifyToken_messages_counterexample:
  "adapter_findOne (where_id ''b'') (qrTokens ex_pending) = None \<and>
   snd (verifyToken ex_pending (Val ''b'') (Val ''s'') (Some ex_session) ''c'' 1000 1000 1000) =
     (404, ErrorBody ''Token not found'') \<and>
   adapter_findOne (where_id ''a'') (qrTokens ex_pending) = Some ex_row \<and>
   token ex_row \<noteq> ''x'' \<and>
   snd (verifyToken ex_pending (Val ''a'') (Val ''x'') (Some ex_session) ''c'' 1000 1000 1000) =
     (401, ErrorBody ''Invalid token'')"
  by (simp add: handler_defs ex_defs)

text \<open>
  Claim C7, amended. \<open>verifyToken\<close> tells the two cases apart in what it sends: with no
  record for the id it answers 404 \<open>Token not found\<close>, with a record whose secret differs
  from the supplied one it answers 401 \<open>Invalid token\<close>; the two responses differ, whatever
  the stores and the rest of the requests are.
\<close>

theorem verifyToken_distinguishes:
  assumes "tid \<noteq> []" "tok \<noteq> []" "session_user sess = Some u"
    and missing: "adapter_findOne (where_id tid) (qrTokens db) = None"
    and "tid' \<noteq> []" "tok' \<noteq> []" "session_user sess' = Some u'"
    and found: "adapter_findOne (where_id tid') (qrTokens db') = Some q"
    and wrong: "token q \<noteq> tok'"
  shows "snd (verifyToken db (Val tid) (Val tok) (Some sess) sct now now_sct now_verified) =
           (404, ErrorBody ''Token not found'') \<and>
         snd (verifyToken db' (Val tid') (Val tok') (Some sess') sct' now' now_sct' now_verified') =
           (401, ErrorBody ''Invalid token'') \<and>
         snd (verifyToken db (Val tid) (Val tok) (Some sess) sct now now_sct now_verified) \<noteq>
         snd (verifyToken db' (Val tid') (Val tok') (Some sess') sct' now' now_sct' now_verified')"
  using missing found wrong
  by (simp add: verifyToken_found [OF assms(1-3)] verifyToken_found [OF assms(5-7)]
      verifyToken_finish_def json_status_def)

theorem verifyToken_distinguishes_witness:
  "snd (verifyToken ex_pending (Val ''b'') (Val ''s'') (Some ex_session) ''c'' 1000 1000 1000) \<noteq>
   snd (verifyToken ex_pending (Val ''a'') (Val ''x'') (Some ex_session) ''c'' 1000 1000 1000)"
proof -
  have req: "''a'' \<noteq> []" "''x'' \<noteq> []" "''s'' \<noteq> []" "''b'' \<noteq> []"
    "session_user ex_session = Some ex_user"
    by (simp_all add: ex_session_def)
  have f1: "adapter_findOne (where_id ''a'') (qrTokens ex_pending) = Some ex_row"
    and f3: "adapter_findOne (where_id ''b'') (qrTokens ex_pending) = None"
    by (simp_all add: adapter_findOne_def where_id_def ex_defs)
  have wrong: "token ex_row \<noteq> ''x''"
    by (simp add: ex_defs)
  from verifyToken_distinguishes [OF req(4) req(3) req(5) f3 req(1) req(2) req(5) f1 wrong]
  show ?thesis by blast
qed

subsection \<open>verifyToken: calls for the same token\<close>

text \<open>
  Claim C6 as stated fails. The handler looks the record up and updates it in two steps
  with an \<open>await\<close> between them, and the update is not conditional on \<open>isUsed\<close>. When
  two calls with the correct secret overlap, both having looked the record up before
  either goes on, both succeed, each with its own session creation token.
\<close>

theorem verifyToken_overlapped_counterexample:
  "correctCall ''a'' ex_row ex_call \<and> correctCall ''a'' ex_row (ex_call\<lparr>c_sct := ''d''\<rparr>) \<and>
   snd (verifyToken_overlapped ex_pending ex_call (ex_call\<lparr>c_sct := ''d''\<rparr>)) =
     ((200, VerifyBody ''u1'' ex_user ''c'' 301000), (200, VerifyBody ''u1'' ex_user ''d'' 301000))"
  by (simp add: verifyToken_overlapped_def call_lookup_def call_finish_def correctCall_def
      handler_defs ex_defs)

lemma verifyToken_call_used:
  assumes found: "adapter_findOne (where_id tid) (qrTokens db) = Some q"
    and "tid \<noteq> []" "token q \<noteq> []" "isUsed q" "correctCall tid q c"
  shows "verifyToken_call db c = (db, (409, ErrorBody ''Token already used''))"
proof -
  from assms(5) obtain sess u where c: "c_tokenId c = Val tid" "c_token c = Val (token q)"
    "c_session c = Some sess" "session_user sess = Some u" "c_now c \<le> expiresAt q"
    by (auto simp: correctCall_def split: option.splits)
  show ?thesis
    using found assms(4) c(5)
    by (simp add: verifyToken_call_def c(1-3) verifyToken_found [OF assms(2,3) c(4)]
        verifyToken_finish_def json_status_def)
qed

lemma verifyToken_call_pending:
  assumes found: "adapter_findOne (where_id tid) (qrTokens db) = Some q"
    and "tid \<noteq> []" "token q \<noteq> []" "\<not> isUsed q" "correctCall tid q c"
  shows "\<exists>u q'. snd (verifyToken_call db c) =
           (200, VerifyBody (user_id u) u (c_sct c) (c_now_sct c + 300000)) \<and>
         adapter_findOne (where_id tid) (qrTokens (fst (verifyToken_call db c))) = Some q' \<and>
         isUsed q' \<and> token q' = token q \<and> expiresAt q' = expiresAt q"
proof -
  from assms(5) obtain sess u where c: "c_tokenId c = Val tid" "c_token c = Val (token q)"
    "c_session c = Some sess" "session_user sess = Some u" "c_now c \<le> expiresAt q"
    by (auto simp: correctCall_def split: option.splits)
  show ?thesis
    using found assms(4) c(5)
    by (simp add: verifyToken_call_def c(1-3) verifyToken_found [OF assms(2,3) c(4)]
        verifyToken_finish_def json_def findOne_verified Let_def)
qed

lemma verifyToken_sequential_used:
  assumes "adapter_findOne (where_id tid) (qrTokens db) = Some q"
    and "tid \<noteq> []" "token q \<noteq> []" "isUsed q"
  shows "list_all (correctCall tid q) cs \<Longrightarrow>
         verifyToken_sequential db cs =
           (db, replicate (length cs) (409, ErrorBody ''Token already used''))"
  by (induction cs) (simp_all add: verifyToken_call_used [OF assms])

text \<open>
  Claim C6, amended. When the calls for a pending record, each with the correct secret, an
  authenticated caller and before the record expires, are handled one after the other
  (each to its end before the next starts), the first succeeds and every other one fails
  with 409 \<open>Token already used\<close>: of N calls exactly one succeeds and N - 1 fail so.
\<close>

theorem verifyToken_sequential_once:
  assumes found: "adapter_findOne (where_id tid) (qrTokens db) = Some q"
    and req: "tid \<noteq> []" "token q \<noteq> []"
    and pending: "\<not> isUsed q"
    and calls: "list_all (correctCall tid q) (c # cs)"
  shows "fst (snd (verifyToken_call db c)) = 200 \<and>
         snd (verifyToken_sequential db (c # cs)) =
           snd (verifyToken_call db c) #
           replicate (length cs) (409, ErrorBody ''Token already used'')"
proof -
  from calls have c: "correctCall tid q c" and cs: "list_all (correctCall tid q) cs"
    by simp_all
  from verifyToken_call_pending [OF found req pending c] obtain u q'
    where first: "snd (verifyToken_call db c) =
        (200, VerifyBody (user_id u) u (c_sct c) (c_now_sct c + 300000))"
      and found': "adapter_findOne (where_id tid) (qrTokens (fst (verifyToken_call db c))) = Some q'"
      and q': "isUsed q'" "token q' = token q" "expiresAt q' = expiresAt q"
    by blast
  have "correctCall tid q' = correctCall tid q"
    by (simp add: correctCall_def fun_eq_iff q')
  with cs have cs': "list_all (correctCall tid q') cs"
    by simp
  from req q' have req': "token q' \<noteq> []"
    by simp
  have rest: "verifyToken_sequential (fst (verifyToken_call db c)) cs =
      (fst (verifyToken_call db c), replicate (length cs) (409, ErrorBody ''Token already used''))"
    by (rule verifyToken_sequential_used [OF found' req(1) req' q'(1) cs'])
  show ?thesis
    using first rest by (simp add: case_prod_unfold)
qed

text \<open>
Three calls for the token of the concrete run.
\<close>

theorem verifyToken_sequential_once_witness:
  "snd (verifyToken_sequential ex_pending
      [ex_call, ex_call\<lparr>c_sct := ''d''\<rparr>, ex_call\<lparr>c_sct := ''e'', c_now := 2000\<rparr>]) =
     [(200, VerifyBody ''u1'' ex_user ''c'' 301000),
      (409, ErrorBody ''Token already used''),
      (409, ErrorBody ''Token already used'')]"
proof -
  have found: "adapter_findOne (where_id ''a'') (qrTokens ex_pending) = Some ex_row"
    by (simp add: adapter_findOne_def where_id_def ex_defs)
  have req: "''a'' \<noteq> []" "token ex_row \<noteq> []" "\<not> isUsed ex_row"
    by (simp_all add: ex_defs)
  have calls: "list_all (correctCall ''a'' ex_row)
      [ex_call, ex_call\<lparr>c_sct := ''d''\<rparr>, ex_call\<lparr>c_sct := ''e'', c_now := 2000\<rparr>]"
    by (simp add: correctCall_def ex_defs)
  have first: "snd (verifyToken_call ex_pending ex_call) =
      (200, VerifyBody ''u1'' ex_user ''c'' 301000)"
    by (simp add: verifyToken_call_def handler_defs ex_defs)
  from verifyToken_sequential_once [OF found req calls] first
  show ?thesis by simp
qed

subsection \<open>pollStatus: expiry\<close>

text \<open>
  Claim C2 as stated fails. It reports a used record as expired only once the second TTL
  has elapsed; the handler checks \<open>expiresAt\<close> first, whatever \<open>isUsed\<close> is. The verified
  record of the concrete run at time 300500 has its first TTL elapsed (300000) and its
  second TTL not elapsed (301000): the answer is 410 \<open>Token expired\<close> and the record is
  evicted.
\<close>

theorem pollStatus_expired_counterexample:
  "adapter_findOne (where_id ''a'') (qrTokens ex_verified) = Some ex_row_verified \<and>
   isUsed ex_row_verified \<and>
   expiresAt ex_row_verified = 300000 \<and>
   sessionCreationTokenExpiresAt ex_row_verified = Val 301000 \<and>
   pollStatus ex_verified (Some ''a'') 300500 300500 = (ex_empty, tokenExpired)"
  by (simp add: handler_defs ex_defs tokenExpired_def)

text \<open>
  Claim C2, amended. For a request that names an id: with no record for the id,
  \<open>pollStatus\<close> answers 404 \<open>Token not found\<close> and changes nothing; with a record whose
  first TTL has elapsed (\<open>expiresAt < now\<close>), used or not, it evicts the rows of that id
  and answers 410 \<open>Token expired\<close>; with a record that is not used and whose first TTL
  has not elapsed it reports \<open>pending\<close>; with a used record whose first and second TTL
  have not elapsed, that holds a session creation token and whose user exists, it
  reports \<open>completed\<close> with the token. (Nothing is stated for a used record whose second
  TTL alone has elapsed.)
\<close>

theorem pollStatus_expired:
  assumes "tid \<noteq> []"
  shows "(adapter_findOne (where_id tid) (qrTokens db) = None \<longrightarrow>
            pollStatus db (Some tid) now now2 = (db, (404, ErrorBody ''Token not found''))) \<and>
         (\<forall>q. adapter_findOne (where_id tid) (qrTokens db) = Some q \<longrightarrow>
            (expiresAt q < now \<longrightarrow>
               pollStatus db (Some tid) now now2 =
                 (db\<lparr>qrTokens := adapter_delete (where_id tid) (qrTokens db)\<rparr>, tokenExpired) \<and>
               adapter_findOne (where_id tid)
                 (qrTokens (fst (pollStatus db (Some tid) now now2))) = None) \<and>
            (now \<le> expiresAt q \<and> \<not> isUsed q \<longrightarrow>
               fst (pollStatus db (Some tid) now now2) = db \<and>
               fst (snd (pollStatus db (Some tid) now now2)) = 200 \<and>
               status_of (snd (pollStatus db (Some tid) now now2)) = Some ''pending'') \<and>
            (\<forall>s e u. now \<le> expiresAt q \<and> isUsed q \<and>
               sessionCreationToken q = Val s \<and> s \<noteq> [] \<and>
               sessionCreationTokenExpiresAt q = Val e \<and> now2 < e \<and>
               findUser (userId q) (users db) = Some u \<longrightarrow>
               pollStatus db (Some tid) now now2 =
                 (db, (200, StatusBody ''completed'' (userId q) (Some u) (Some s)
                         (if truthyDate (verifiedAt q) then newDate (verifiedAt q) else None)
                         (expiresAt q)))))"
  using assms
  by (auto simp: pollStatus_def json_def json_status_def tokenExpired_def findOne_deleted Let_def)

theorem pollStatus_expired_witness:
  "pollStatus ex_verified (Some ''a'') 300500 300500 = (ex_empty, tokenExpired) \<and>
   pollStatus ex_pending (Some ''a'') 300500 300500 = (ex_empty, tokenExpired) \<and>
   pollStatus ex_pending (Some ''b'') 1000 1000 = (ex_pending, (404, ErrorBody ''Token not found'')) \<and>
   status_of (snd (pollStatus ex_pending (Some ''a'') 1000 1000)) = Some ''pending'' \<and>
   pollStatus ex_verified (Some ''a'') 2000 2000 =
     (ex_verified, (200, StatusBody ''completed'' (Val ''u1'') (Some ex_user) (Some ''c'')
                      (Some 1000) 300000))"
proof -
  have req: "''a'' \<noteq> []" "''b'' \<noteq> []"
    by simp_all
  have f1: "adapter_findOne (where_id ''a'') (qrTokens ex_pending) = Some ex_row"
    and f2: "adapter_findOne (where_id ''a'') (qrTokens ex_verified) = Some ex_row_verified"
    and f3: "adapter_findOne (where_id ''b'') (qrTokens ex_pending) = None"
    by (simp_all add: adapter_findOne_def where_id_def ex_defs)
  have rows: "expiresAt ex_row < 300500" "expiresAt ex_row_verified < 300500"
    "1000 \<le> expiresAt ex_row" "\<not> isUsed ex_row"
    "2000 \<le> expiresAt ex_row_verified" "isUsed ex_row_verified"
    "sessionCreationToken ex_row_verified = Val ''c''" "''c'' \<noteq> []"
    "sessionCreationTokenExpiresAt ex_row_verified = Val 301000"
    "findUser (userId ex_row_verified) (users ex_verified) = Some ex_user"
    "userId ex_row_verified = Val ''u1''" "verifiedAt ex_row_verified = Val 1000"
    "expiresAt ex_row_verified = 300000"
    by (simp_all add: ex_defs adapter_findOne_def where_user_id_def)
  have del: "ex_pending\<lparr>qrTokens := adapter_delete (where_id ''a'') (qrTokens ex_pending)\<rparr> = ex_empty"
    "ex_verified\<lparr>qrTokens := adapter_delete (where_id ''a'') (qrTokens ex_verified)\<rparr> = ex_empty"
    by (simp_all add: adapter_delete_def where_id_def ex_defs)
  from pollStatus_expired [OF req(1), of ex_verified 300500 300500]
    pollStatus_expired [OF req(1), of ex_pending 300500 300500]
    pollStatus_expired [OF req(2), of ex_pending 1000 1000]
    pollStatus_expired [OF req(1), of ex_pending 1000 1000]
    pollStatus_expired [OF req(1), of ex_verified 2000 2000]
    f1 f2 f3 rows del
  show ?thesis by simp
qed

text \<open>
  The case the amended claim leaves out, on the code: a used record whose second TTL has
  elapsed and whose first TTL has not is answered 200 with the status \<open>completed\<close> and no
  session creation token, and stays in the table.
\<close>

lemma pollStatus_second_expiry_alone:
  "pollStatus ex_verified_long (Some ''a'') 400000 400000 =
     (ex_verified_long,
      (200, StatusBody ''completed'' (Val ''u1'') None None (Some 1000) 3600000))"
  by (simp add: handler_defs ex_defs)

subsection \<open>pollStatus: disclosure of the session creation token\<close>

text \<open>
  Claim C4 as stated fails. It has every record that is not used reported as \<open>pending\<close>;
  the record of the concrete run, not used, polled after its expiry, is reported as
  expired (and evicted).
\<close>

theorem pollStatus_pending_counterexample:
  "adapter_findOne (where_id ''a'') (qrTokens ex_pending) = Some ex_row \<and>
   isUsed ex_row = False \<and>
   pollStatus ex_pending (Some ''a'') 999999 999999 = (ex_empty, (410, ErrorBody ''Token expired''))"
  by (simp add: handler_defs ex_defs)

text \<open>
  Claim C4, amended. For a record that is not used and whose first TTL has not elapsed,
  \<open>pollStatus\<close> reports \<open>pending\<close>, with no session creation token. For every record that
  is not used, expired or not, the response carries no session creation token. A
  response of \<open>pollStatus\<close> carries a session creation token only if it is a 200
  \<open>completed\<close> response for a used record that has not expired, the token is the
  record's, and the date of the record's second expiry is later than the time read for
  that check.
\<close>

theorem pollStatus_discloses:
  "(\<forall>tid q. tid \<noteq> [] \<and> adapter_findOne (where_id tid) (qrTokens db) = Some q \<and>
       \<not> isUsed q \<and> now \<le> expiresAt q \<longrightarrow>
         pollStatus db (Some tid) now now2 =
           (db, (200, StatusBody ''pending'' (userId q) None None
                   (if truthyDate (verifiedAt q) then newDate (verifiedAt q) else None)
                   (expiresAt q)))) \<and>
   (\<forall>tid q. tokenId = Some tid \<and> adapter_findOne (where_id tid) (qrTokens db) = Some q \<and>
       \<not> isUsed q \<longrightarrow>
         disclosed (snd (pollStatus db tokenId now now2)) = None) \<and>
   (\<forall>s. disclosed (snd (pollStatus db tokenId now now2)) = Some s \<longrightarrow>
      (\<exists>tid q e. tokenId = Some tid \<and>
         adapter_findOne (where_id tid) (qrTokens db) = Some q \<and>
         isUsed q \<and> sessionCreationToken q = Val s \<and>
         newDate (sessionCreationTokenExpiresAt q) = Some e \<and> now2 < e \<and>
         now \<le> expiresAt q \<and>
         fst (snd (pollStatus db tokenId now now2)) = 200 \<and>
         status_of (snd (pollStatus db tokenId now now2)) = Some ''completed''))"
proof (intro conjI allI impI)
  fix tid q
  assume "tid \<noteq> [] \<and> adapter_findOne (where_id tid) (qrTokens db) = Some q \<and>
       \<not> isUsed q \<and> now \<le> expiresAt q"
  then show "pollStatus db (Some tid) now now2 =
           (db, (200, StatusBody ''pending'' (userId q) None None
                   (if truthyDate (verifiedAt q) then newDate (verifiedAt q) else None)
                   (expiresAt q)))"
    by (simp add: pollStatus_def json_def Let_def)
next
  fix tid q
  assume "tokenId = Some tid \<and> adapter_findOne (where_id tid) (qrTokens db) = Some q \<and>
       \<not> isUsed q"
  then show "disclosed (snd (pollStatus db tokenId now now2)) = None"
    by (simp add: pollStatus_def json_def json_status_def Let_def)
next
  fix s
  assume "disclosed (snd (pollStatus db tokenId now now2)) = Some s"
  then show "\<exists>tid q e. tokenId = Some tid \<and>
         adapter_findOne (where_id tid) (qrTokens db) = Some q \<and>
         isUsed q \<and> sessionCreationToken q = Val s \<and>
         newDate (sessionCreationTokenExpiresAt q) = Some e \<and> now2 < e \<and>
         now \<le> expiresAt q \<and>
         fst (snd (pollStatus db tokenId now now2)) = 200 \<and>
         status_of (snd (pollStatus db tokenId now now2)) = Some ''completed''"
    by (cases "newDate (sessionCreationTokenExpiresAt (the (adapter_findOne (where_id (the tokenId)) (qrTokens db))))")
      (auto simp: pollStatus_def json_def json_status_def Let_def
        split: option.split_asm if_split_asm field.split_asm)
qed

theorem pollStatus_discloses_witness:
  "pollStatus ex_pending (Some ''a'') 1000 1000 =
     (ex_pending, (200, StatusBody ''pending'' Undefined None None None 300000)) \<and>
   disclosed (snd (pollStatus ex_verified (Some ''a'') 2000 2000)) = Some ''c'' \<and>
   status_of (snd (pollStatus ex_verified (Some ''a'') 2000 2000)) = Some ''completed''"
proof -
  have f1: "adapter_findOne (where_id ''a'') (qrTokens ex_pending) = Some ex_row"
    by (simp add: adapter_findOne_def where_id_def ex_defs)
  have pending: "''a'' \<noteq> []" "\<not> isUsed ex_row" "1000 \<le> expiresAt ex_row"
    "userId ex_row = Undefined" "verifiedAt ex_row = Undefined" "expiresAt ex_row = 300000"
    by (simp_all add: ex_defs)
  have d: "disclosed (snd (pollStatus ex_verified (Some ''a'') 2000 2000)) = Some ''c''"
    by (simp add: handler_defs ex_defs)
  have p: "''a'' \<noteq> [] \<and> adapter_findOne (where_id ''a'') (qrTokens ex_pending) = Some ex_row \<and>
      \<not> isUsed ex_row \<and> 1000 \<le> expiresAt ex_row"
    using f1 pending by simp
  from pollStatus_discloses [of ex_pending 1000 1000 "Some ''a''", THEN conjunct1, rule_format,
      OF p]
    pollStatus_discloses [of ex_verified 2000 2000 "Some ''a''", THEN conjunct2, THEN conjunct2,
      rule_format, OF d] d
  show ?thesis by (auto simp: ex_defs)
qed

subsection \<open>claimSession: expiry of the session creation token\<close>

text \<open>
  Claim C9 as stated fails. It has the claim succeed when \<open>now\<close> equals
  \<open>sessionCreationTokenExpiresAt\<close>; the handler's check is \<open>tokenExpiresAt <= now\<close>, and
  at time 301000 the verified record of the concrete run, whose second expiry is 301000,
  gets 410 \<open>Session creation token expired\<close>.
\<close>

theorem claimSession_boundary_counterexample:
  "adapter_findOne (where_sessionCreationToken ''c'') (qrTokens ex_verified) = Some ex_row_verified \<and>
   sessionCreationTokenExpiresAt ex_row_verified = Val 301000 \<and>
   claimSession ex_verified (Val ''c'') 301000 (Returns (Some ex_newSession)) (Returns ()) =
     (ex_verified, (410, ErrorBody ''Session creation token expired''))"
  by (simp add: handler_defs ex_defs)

text \<open>
  Claim C9, amended. For a verified record found by its session creation token (used,
  with a \<open>userId\<close> whose user exists): \<open>claimSession\<close> succeeds whenever
  \<open>now < sessionCreationTokenExpiresAt\<close> (and the host creates the session and sets the
  cookie), and fails with 410 \<open>Session creation token expired\<close> whenever
  \<open>sessionCreationTokenExpiresAt \<le> now\<close>, the time equal to the expiry included.
\<close>

theorem claimSession_expiry:
  assumes "s \<noteq> []"
    and found: "adapter_findOne (where_sessionCreationToken s) (qrTokens db) = Some q"
    and verified: "isUsed q" "userId q = Val uid" "uid \<noteq> []"
    and expiry: "sessionCreationTokenExpiresAt q = Val e"
    and bound: "findUser (userId q) (users db) = Some u"
  shows "(now < e \<longrightarrow>
            claimSession db (Val s) now (Returns (Some ns)) (Returns ()) =
              (db\<lparr>qrTokens := adapter_update (where_sessionCreationToken s)
                      clearSessionCreationToken (qrTokens db)\<rparr>,
               (200, ClaimBody uid u (session_token ns) (session_expiresAt ns)))) \<and>
         (e \<le> now \<longrightarrow>
            claimSession db (Val s) now created cookie =
              (db, (410, ErrorBody ''Session creation token expired'')))"
  using assms by (simp add: claimSession_unfold json_def json_status_def)

text \<open>
One millisecond before the expiry, and at the expiry.
\<close>

theorem claimSession_expiry_witness:
  "claimSession ex_verified (Val ''c'') 300999 (Returns (Some ex_newSession)) (Returns ()) =
     (\<lparr>qrTokens = [ex_row_verified\<lparr>sessionCreationToken := Null,
                       sessionCreationTokenExpiresAt := Null\<rparr>], users = [ex_user]\<rparr>,
      (200, ClaimBody ''u1'' ex_user ''t'' 900000)) \<and>
   claimSession ex_verified (Val ''c'') 301000 (Returns (Some ex_newSession)) (Returns ()) =
     (ex_verified, (410, ErrorBody ''Session creation token expired''))"
proof -
  have s: "''c'' \<noteq> []" by simp
  have found: "adapter_findOne (where_sessionCreationToken ''c'') (qrTokens ex_verified) =
      Some ex_row_verified"
    by (simp add: adapter_findOne_def where_sessionCreationToken_def ex_defs)
  have verified: "isUsed ex_row_verified" "userId ex_row_verified = Val ''u1''" "''u1'' \<noteq> []"
    "sessionCreationTokenExpiresAt ex_row_verified = Val 301000"
    by (simp_all add: ex_defs)
  have bound: "findUser (userId ex_row_verified) (users ex_verified) = Some ex_user"
    by (simp add: adapter_findOne_def where_user_id_def ex_defs)
  have upd: "ex_verified\<lparr>qrTokens := adapter_update (where_sessionCreationToken ''c'')
      clearSessionCreationToken (qrTokens ex_verified)\<rparr> =
     \<lparr>qrTokens = [ex_row_verified\<lparr>sessionCreationToken := Null,
                       sessionCreationTokenExpiresAt := Null\<rparr>], users = [ex_user]\<rparr>"
    by (simp add: adapter_update_def where_sessionCreationToken_def clearSessionCreationToken_def
        ex_defs)
  from claimSession_expiry [OF s found verified bound, of 300999 ex_newSession]
    claimSession_expiry [OF s found verified bound, of 301000 _ "Returns (Some ex_newSession)"
      "Returns ()"] upd
  show ?thesis by (simp add: ex_newSession_def)
qed

subsection \<open>claimSession: one claim for each token\<close>

text \<open>
No row holds \<open>s\<close> as its session creation token: kept by every request that does not store it.
\<close>

lemma unclaimable_handle:
  assumes "list_all (\<lambda>r. sessionCreationToken r \<noteq> Val s) (qrTokens db)"
    and "\<not> mints req s"
  shows "list_all (\<lambda>r. sessionCreationToken r \<noteq> Val s) (qrTokens (fst (handle cfg db req)))"
proof (cases req)
  case (GenerateToken tokenId secret baseURL now)
  then show ?thesis
    using assms(1) by (simp add: generateToken_table)
next
  case (VerifyToken tokenId secret sess sct now now_sct now_verified)
  with assms(2) have "sct \<noteq> s" by simp
  then show ?thesis
    using assms(1) verifyToken_table [of db tokenId secret sess sct now now_sct now_verified]
    by (auto simp: VerifyToken intro!: list_all_delete list_all_update)
next
  case (PollStatus tokenId now now2)
  then show ?thesis
    using assms(1) pollStatus_table [of db tokenId now now2]
    by (auto intro!: list_all_delete)
next
  case (ClaimSession sct now created cookie)
  show ?thesis
  proof (cases "fst (snd (claimSession db sct now created cookie)) = 200")
    case True
    from claimSession_success [OF True] show ?thesis
      using assms(1)
      by (auto simp: ClaimSession clearSessionCreationToken_def intro!: list_all_update)
  next
    case False
    then show ?thesis
      using assms(1) by (simp add: ClaimSession claimSession_unchanged)
  qed
qed

lemma unclaimable_run:
  "list_all (\<lambda>r. sessionCreationToken r \<noteq> Val s) (qrTokens db) \<Longrightarrow>
   list_all (\<lambda>req. \<not> mints req s) reqs \<Longrightarrow>
   list_all (\<lambda>r. sessionCreationToken r \<noteq> Val s) (qrTokens (run cfg db reqs))"
  by (induction reqs arbitrary: db) (simp_all add: unclaimable_handle)

lemma claimSession_unclaimable:
  assumes "list_all (\<lambda>r. sessionCreationToken r \<noteq> Val s) (qrTokens db)" and "s \<noteq> []"
  shows "claimSession db (Val s) now created cookie =
           (db, (404, ErrorBody ''Invalid session creation token''))"
proof -
  have "adapter_findOne (where_sessionCreationToken s) (qrTokens db) = None"
    using assms(1)
    by (simp add: adapter_findOne_def find_None_iff where_sessionCreationToken_def list_all_iff)
  then show ?thesis
    using assms(2) by (simp add: claimSession_unfold json_status_def)
qed

lemma cleared_unclaimable:
  "list_all (\<lambda>r. sessionCreationToken r \<noteq> Val s)
     (adapter_update (where_sessionCreationToken s) clearSessionCreationToken rows)"
  by (auto simp: adapter_update_def list_all_iff where_sessionCreationToken_def
      clearSessionCreationToken_def)

text \<open>
  Claim C1 as stated fails. The handler looks the record up by the token and clears the
  token in two steps with awaits between them, and the clearing update is not
  conditional on what the row holds then. When two claims of the token of the verified
  record overlap, both having looked the record up before either goes on, both succeed:
  two sessions are handed out for one session creation token.
\<close>

theorem claimSession_overlapped_counterexample:
  "k_sct ex_claimCall = Val ''c'' \<and> k_sct ex_claimCall2 = Val ''c'' \<and>
   snd (claimSession_overlapped ex_verified ex_claimCall ex_claimCall2) =
     ((200, ClaimBody ''u1'' ex_user ''t'' 900000),
      (200, ClaimBody ''u1'' ex_user ''t2'' 900001))"
  by (simp add: claimSession_overlapped_def claimSession_lookup_def claimSession_finish_def
      claim_finish_def handler_defs ex_defs)

text \<open>
  Claim C1, amended. For claims handled one after the other, each to its end before the
  next starts: when \<open>claimSession\<close> succeeds (answers 200) for a session creation token
  \<open>s\<close>, the rows that held \<open>s\<close> have \<open>sessionCreationToken\<close> and
  \<open>sessionCreationTokenExpiresAt\<close> set to \<open>null\<close> and no other row is changed; and after
  any further requests handled so, none of them a verification that stores \<open>s\<close> again as
  its generated token, every \<open>claimSession\<close> with \<open>s\<close> answers 404 with
  \<open>Invalid session creation token\<close> and leaves the store as it is.
\<close>

theorem claimSession_once:
  assumes ok: "fst (snd (claimSession db (Val s) now created cookie)) = 200"
    and fresh: "list_all (\<lambda>req. \<not> mints req s) reqs"
  shows "qrTokens (fst (claimSession db (Val s) now created cookie)) =
           map (\<lambda>r. if sessionCreationToken r = Val s
                     then r\<lparr>sessionCreationToken := Null, sessionCreationTokenExpiresAt := Null\<rparr>
                     else r) (qrTokens db) \<and>
         claimSession (run cfg (fst (claimSession db (Val s) now created cookie)) reqs)
             (Val s) now' created' cookie' =
           (run cfg (fst (claimSession db (Val s) now created cookie)) reqs,
            (404, ErrorBody ''Invalid session creation token''))"
proof -
  from claimSession_success [OF ok]
  have s: "s \<noteq> []"
    and db': "fst (claimSession db (Val s) now created cookie) =
      db\<lparr>qrTokens := adapter_update (where_sessionCreationToken s)
             clearSessionCreationToken (qrTokens db)\<rparr>"
    by auto
  have "list_all (\<lambda>r. sessionCreationToken r \<noteq> Val s)
      (qrTokens (fst (claimSession db (Val s) now created cookie)))"
    by (simp add: db' cleared_unclaimable)
  then have "list_all (\<lambda>r. sessionCreationToken r \<noteq> Val s)
      (qrTokens (run cfg (fst (claimSession db (Val s) now created cookie)) reqs))"
    using fresh by (rule unclaimable_run)
  then have again: "claimSession (run cfg (fst (claimSession db (Val s) now created cookie)) reqs)
             (Val s) now' created' cookie' =
           (run cfg (fst (claimSession db (Val s) now created cookie)) reqs,
            (404, ErrorBody ''Invalid session creation token''))"
    using s by (rule claimSession_unclaimable)
  have "qrTokens (fst (claimSession db (Val s) now created cookie)) =
           map (\<lambda>r. if sessionCreationToken r = Val s
                     then r\<lparr>sessionCreationToken := Null, sessionCreationTokenExpiresAt := Null\<rparr>
                     else r) (qrTokens db)"
    by (simp add: db' adapter_update_def where_sessionCreationToken_def
        clearSessionCreationToken_def)
  with again show ?thesis by simp
qed

text \<open>
A claim at time 2000, a poll, and the second claim.
\<close>

theorem claimSession_once_witness:
  "fst (snd (claimSession ex_verified (Val ''c'') 2000 (Returns (Some ex_newSession))
      (Returns ()))) = 200 \<and>
   snd (claimSession
      (run ex_config
         (fst (claimSession ex_verified (Val ''c'') 2000 (Returns (Some ex_newSession))
            (Returns ())))
         [PollStatus (Some ''a'') 3000 3000])
      (Val ''c'') 4000 (Returns (Some ex_newSession)) (Returns ())) =
     (404, ErrorBody ''Invalid session creation token'')"
proof -
  have ok: "fst (snd (claimSession ex_verified (Val ''c'') 2000 (Returns (Some ex_newSession))
      (Returns ()))) = 200"
    by (simp add: ex_claim)
  have fresh: "list_all (\<lambda>req. \<not> mints req ''c'') [PollStatus (Some ''a'') 3000 3000]"
    by simp
  from claimSession_once [OF ok fresh, of ex_config 4000 "Returns (Some ex_newSession)"
      "Returns ()"] ok
  show ?thesis by simp
qed

subsection \<open>claimSession: what a successful claim leaves unchanged\<close>

text \<open>
  Claim C10. A successful \<open>claimSession\<close> for \<open>s\<close> removes no row and changes no user;
  row by row, \<open>id\<close>, \<open>token\<close>, \<open>createdAt\<close>, \<open>expiresAt\<close>, \<open>isUsed\<close>, \<open>userId\<close> and
  \<open>verifiedAt\<close> are as before, and \<open>sessionCreationToken\<close> and
  \<open>sessionCreationTokenExpiresAt\<close> are \<open>null\<close> in the rows that held \<open>s\<close> and as before
  in the others. A lookup by \<open>id\<close> finds afterwards the record it found before, with
  these two fields cleared if it held \<open>s\<close>; the claimed record is still in the table,
  with \<open>isUsed\<close> true.
\<close>

theorem claimSession_frame:
  assumes ok: "fst (snd (claimSession db (Val s) now created cookie)) = 200"
  shows "(let db' = fst (claimSession db (Val s) now created cookie) in
          users db' = users db \<and>
          map id' (qrTokens db') = map id' (qrTokens db) \<and>
          map token (qrTokens db') = map token (qrTokens db) \<and>
          map createdAt (qrTokens db') = map createdAt (qrTokens db) \<and>
          map expiresAt (qrTokens db') = map expiresAt (qrTokens db) \<and>
          map isUsed (qrTokens db') = map isUsed (qrTokens db) \<and>
          map userId (qrTokens db') = map userId (qrTokens db) \<and>
          map verifiedAt (qrTokens db') = map verifiedAt (qrTokens db) \<and>
          map sessionCreationToken (qrTokens db') =
            map (\<lambda>r. if sessionCreationToken r = Val s then Null else sessionCreationToken r)
              (qrTokens db) \<and>
          map sessionCreationTokenExpiresAt (qrTokens db') =
            map (\<lambda>r. if sessionCreationToken r = Val s then Null
                      else sessionCreationTokenExpiresAt r) (qrTokens db) \<and>
          (\<forall>tid. adapter_findOne (where_id tid) (qrTokens db') =
             map_option
               (\<lambda>r. if sessionCreationToken r = Val s
                     then r\<lparr>sessionCreationToken := Null, sessionCreationTokenExpiresAt := Null\<rparr>
                     else r)
               (adapter_findOne (where_id tid) (qrTokens db))) \<and>
          (\<exists>q. adapter_findOne (where_sessionCreationToken s) (qrTokens db) = Some q \<and>
               isUsed q \<and>
               q\<lparr>sessionCreationToken := Null, sessionCreationTokenExpiresAt := Null\<rparr>
                 \<in> set (qrTokens db')))"
proof -
  from claimSession_success [OF ok] obtain q
    where q: "adapter_findOne (where_sessionCreationToken s) (qrTokens db) = Some q"
      and used: "isUsed q"
      and db': "fst (claimSession db (Val s) now created cookie) =
        db\<lparr>qrTokens := adapter_update (where_sessionCreationToken s)
               clearSessionCreationToken (qrTokens db)\<rparr>"
    by auto
  have fields: "map f (adapter_update (where_sessionCreationToken s) clearSessionCreationToken rows)
      = map (\<lambda>r. if sessionCreationToken r = Val s then f (clearSessionCreationToken r) else f r) rows"
    for f :: "qrToken \<Rightarrow> 'a" and rows
    by (simp add: adapter_update_def where_sessionCreationToken_def)
  from q have mem: "q \<in> set (qrTokens db)" and sq: "sessionCreationToken q = Val s"
    by (auto simp: adapter_findOne_def find_Some_iff where_sessionCreationToken_def)
  then have present: "q\<lparr>sessionCreationToken := Null, sessionCreationTokenExpiresAt := Null\<rparr>
      \<in> set (adapter_update (where_sessionCreationToken s) clearSessionCreationToken (qrTokens db))"
    by (force simp: adapter_update_def where_sessionCreationToken_def clearSessionCreationToken_def)
  show ?thesis
    unfolding Let_def db'
    using q used present
    by (simp add: fields findOne_cleared clearSessionCreationToken_def)
qed

theorem claimSession_frame_witness:
  "fst (snd (claimSession ex_verified (Val ''c'') 2000 (Returns (Some ex_newSession))
      (Returns ()))) = 200 \<and>
   map isUsed (qrTokens (fst (claimSession ex_verified (Val ''c'') 2000
      (Returns (Some ex_newSession)) (Returns ())))) = [True] \<and>
   map userId (qrTokens (fst (claimSession ex_verified (Val ''c'') 2000
      (Returns (Some ex_newSession)) (Returns ())))) = [Val ''u1''] \<and>
   map sessionCreationToken (qrTokens (fst (claimSession ex_verified (Val ''c'') 2000
      (Returns (Some ex_newSession)) (Returns ())))) = [Null]"
proof -
  have ok: "fst (snd (claimSession ex_verified (Val ''c'') 2000 (Returns (Some ex_newSession))
      (Returns ()))) = 200"
    by (simp add: ex_claim)
  from claimSession_frame [OF ok] ok
  show ?thesis
    by (simp add: Let_def ex_verified_def ex_row_verified_def ex_row_def)
qed

subsection \<open>The invariant of a record\<close>

lemma recordInvariant_cleared:
  "recordInvariant r \<Longrightarrow> recordInvariant (clearSessionCreationToken r)"
  by (auto simp: recordInvariant_def clearSessionCreationToken_def isSet_def split: if_splits)

lemma recordInvariant_verified:
  "recordInvariant (r\<lparr>isUsed := True, userId := Val uid, verifiedAt := Val t,
      sessionCreationToken := c, sessionCreationTokenExpiresAt := e\<rparr>)"
  by (simp add: recordInvariant_def isSet_def)

text \<open>
  Claim C8. The invariant of a record: if \<open>isUsed\<close> is false then \<open>userId\<close>,
  \<open>verifiedAt\<close> and \<open>sessionCreationToken\<close> are unset; if \<open>isUsed\<close> is true then
  \<open>userId\<close> and \<open>verifiedAt\<close> are set. If every row of the table satisfies it, so does
  every row after any request to any of the four endpoints, and after any eviction. A
  used row whose \<open>sessionCreationToken\<close> is unset after a request was such a row before
  the request, or it is a row this request, a successful \<open>claimSession\<close> with the token
  it held, has cleared: from its verification on, a record holds its token until a
  successful claim.
\<close>

theorem recordInvariant_preserved:
  assumes inv: "list_all recordInvariant (qrTokens db)"
  shows "list_all recordInvariant (qrTokens (fst (handle cfg db req))) \<and>
         list_all recordInvariant (adapter_delete wh (qrTokens db)) \<and>
         (\<forall>r \<in> set (qrTokens (fst (handle cfg db req))).
            isUsed r \<and> \<not> isSet (sessionCreationToken r) \<longrightarrow>
              r \<in> set (qrTokens db) \<or>
              (\<exists>s now created cookie r0.
                 req = ClaimSession (Val s) now created cookie \<and>
                 fst (snd (handle cfg db req)) = 200 \<and>
                 r0 \<in> set (qrTokens db) \<and> sessionCreationToken r0 = Val s \<and>
                 r = clearSessionCreationToken r0))"
proof (cases req)
  case (GenerateToken tokenId secret baseURL now)
  then show ?thesis
    using inv
    by (auto simp: generateToken_table recordInvariant_def isSet_def intro: list_all_delete)
next
  case (VerifyToken tokenId secret sess sct now now_sct now_verified)
  then show ?thesis
    using inv verifyToken_table [of db tokenId secret sess sct now now_sct now_verified]
    by (auto simp: adapter_update_def adapter_delete_def list_all_iff isSet_def
        recordInvariant_verified)
next
  case (PollStatus tokenId now now2)
  then show ?thesis
    using inv pollStatus_table [of db tokenId now now2]
    by (auto simp: adapter_delete_def list_all_iff)
next
  case (ClaimSession sct now created cookie)
  show ?thesis
  proof (cases "fst (snd (claimSession db sct now created cookie)) = 200")
    case True
    from claimSession_success [OF True] obtain s where s: "sct = Val s"
      and db': "fst (claimSession db sct now created cookie) =
        db\<lparr>qrTokens := adapter_update (where_sessionCreationToken s)
               clearSessionCreationToken (qrTokens db)\<rparr>"
      by auto
    show ?thesis
      using inv True
      by (auto simp: ClaimSession s db' [unfolded s] adapter_update_def adapter_delete_def
          list_all_iff where_sessionCreationToken_def recordInvariant_cleared)
  next
    case False
    then show ?thesis
      using inv
      by (auto simp: ClaimSession claimSession_unchanged adapter_delete_def list_all_iff)
  qed
qed

theorem recordInvariant_preserved_witness:
  "list_all recordInvariant (qrTokens ex_verified) \<and>
   list_all recordInvariant
     (qrTokens (fst (handle ex_config ex_verified
        (ClaimSession (Val ''c'') 2000 (Returns (Some ex_newSession)) (Returns ()))))) \<and>
   list_all recordInvariant
     (qrTokens (fst (handle ex_config ex_pending
        (VerifyToken (Val ''a'') (Val ''s'') (Some ex_session) ''c'' 1000 1000 1000)))) \<and>
   list_all (\<lambda>r. isUsed r \<and> \<not> isSet (sessionCreationToken r))
     (qrTokens (fst (handle ex_config ex_verified
        (ClaimSession (Val ''c'') 2000 (Returns (Some ex_newSession)) (Returns ())))))"
proof -
  have inv: "list_all recordInvariant (qrTokens ex_verified)"
    by (simp add: ex_verified_def ex_row_verified_def ex_row_def recordInvariant_def isSet_def)
  have inv': "list_all recordInvariant (qrTokens ex_pending)"
    by (simp add: ex_pending_def ex_row_def recordInvariant_def isSet_def)
  have "list_all (\<lambda>r. isUsed r \<and> \<not> isSet (sessionCreationToken r))
     (qrTokens (fst (handle ex_config ex_verified
        (ClaimSession (Val ''c'') 2000 (Returns (Some ex_newSession)) (Returns ())))))"
    by (simp add: ex_claim isSet_def) (simp add: ex_row_verified_def)
  with recordInvariant_preserved [OF inv] recordInvariant_preserved [OF inv'] inv
  show ?thesis by blast
qed

end
